theory Spec2Isabelle
  imports Main
begin

section \<open>JavaScript string operations used by the project-sync tool\<close>

text \<open>
  Strings of the source are modelled as \<open>string\<close> (lists of characters). The operations
  below are the ones \<open>src/index.ts\<close> applies to paths: \<open>startsWith\<close>, \<open>endsWith\<close>,
  \<open>includes\<close>, \<open>replace(/"/g, '')\<close>, \<open>split(sep).pop()\<close> and \<open>toLowerCase\<close>.
\<close>

definition startsWith :: "string \<Rightarrow> string \<Rightarrow> bool" where
  "startsWith s p = (take (length p) s = p)"

definition endsWith :: "string \<Rightarrow> string \<Rightarrow> bool" where
  "endsWith s t = (length t \<le> length s \<and> drop (length s - length t) s = t)"

fun strIncludes :: "string \<Rightarrow> string \<Rightarrow> bool" where
  "strIncludes [] sub = (sub = [])"
| "strIncludes (c # cs) sub = (startsWith (c # cs) sub \<or> strIncludes cs sub)"

text \<open>\<open>s.replace(/"/g, '')\<close>: every double quote is removed.\<close>

definition stripQuotes :: "string \<Rightarrow> string" where
  "stripQuotes s = filter (\<lambda>c. c \<noteq> CHR 0x22) s"

text \<open>
  \<open>s.split(sep).pop()\<close>: the text after the last separator, the whole string when there
  is none. \<open>split\<close> never yields an empty array, so \<open>pop\<close> always returns a string.
\<close>

definition lastSegment :: "char \<Rightarrow> string \<Rightarrow> string" where
  "lastSegment sep s = rev (takeWhile (\<lambda>c. c \<noteq> sep) (rev s))"

text \<open>\<open>toLowerCase\<close>: the letters \<open>A\<close> to \<open>Z\<close> become \<open>a\<close> to \<open>z\<close>, every other
  character of a \<open>string\<close> stays as it is.\<close>

definition lowerChar :: "char \<Rightarrow> char" where
  "lowerChar c = (let n = (of_char c :: nat) in if 65 \<le> n \<and> n \<le> 90 then char_of (n + 32) else c)"

definition toLowerCase :: "string \<Rightarrow> string" where
  "toLowerCase s = map lowerChar s"

text \<open>\<open>const ext = filePath.split('.').pop()?.toLowerCase()\<close>\<close>

definition extOf :: "string \<Rightarrow> string" where
  "extOf filePath = toLowerCase (lastSegment (CHR ''.'') filePath)"

text \<open>JavaScript truthiness of an optional string field: absent and empty are falsy.\<close>

definition truthy :: "string option \<Rightarrow> bool" where
  "truthy v = (case v of None \<Rightarrow> False | Some s \<Rightarrow> s \<noteq> [])"

section \<open>Path classifier\<close>

text \<open>
  The chain of comparisons on \<open>ext\<close> in the \<open>add\<close> branch (and again in the \<open>remove\<close>
  branch) of \<open>sync_xcode_project\<close>; the four branches are the four kinds, named by the
  source's comments (source file, header file, framework or library, resource file).
\<close>

datatype kind = Source | Header | FrameworkOrLibrary | Resource

definition classify :: "string \<Rightarrow> kind" where
  "classify ext =
     (if ext = ''swift'' \<or> ext = ''m'' \<or> ext = ''mm'' \<or> ext = ''cpp'' \<or> ext = ''c'' then Source
      else if ext = ''h'' \<or> ext = ''hpp'' then Header
      else if ext = ''framework'' \<or> ext = ''a'' \<or> ext = ''dylib'' then FrameworkOrLibrary
      else Resource)"

section \<open>The parsed project\<close>

text \<open>
  \<open>project.hash.project.objects\<close> of the \<open>xcode\<close> package: one JavaScript object per
  section, whose keys are record identifiers (\<open>uuid\<close>) and, for the comment the file
  format attaches to a record, \<open>uuid_comment\<close>. A section is an association list in the
  object's iteration order. Only the fields the tool reads or writes are kept: \<open>path\<close>
  and \<open>name\<close> of a file reference, \<open>fileRef\<close> of a build file, \<open>children\<close> of a
  group, \<open>files\<close> of a build phase. A section, and an array field, may be absent
  (\<open>undefined\<close>).
\<close>

datatype js_error = Error string | NonError

record fileref =
  fr_path :: "string option"
  fr_name :: "string option"

record buildfile =
  bf_fileRef :: "string option"

record child =
  ch_value :: string
  ch_comment :: string

record group =
  grp_children :: "child list option"

record phase =
  ph_files :: "child list option"

datatype 'a pbx_entry = Comment string | Obj 'a

type_synonym 'a pbx_section = "(string \<times> 'a pbx_entry) list"

record project =
  PBXFileReference :: "fileref pbx_section option"
  PBXBuildFile :: "buildfile pbx_section option"
  PBXGroup :: "group pbx_section option"
  PBXSourcesBuildPhase :: "phase pbx_section option"
  PBXResourcesBuildPhase :: "phase pbx_section option"
  PBXFrameworksBuildPhase :: "phase pbx_section option"

text \<open>\<open>uuid.includes('_comment')\<close>: the keys every loop of the tool skips.\<close>

definition isCommentKey :: "string \<Rightarrow> bool" where
  "isCommentKey k = strIncludes k ''_comment''"

section \<open>Path matcher of \<open>remove\<close>\<close>

text \<open>
  \<open>let normalizedPath = filePath; if (filePath.startsWith('ios/')) normalizedPath =
  filePath.substring(4);\<close>
\<close>

definition normalizePath :: "string \<Rightarrow> string" where
  "normalizePath filePath = (if startsWith filePath ''ios/'' then drop 4 filePath else filePath)"

text \<open>\<open>refObj && (refObj.path || refObj.name)\<close>\<close>

definition hasPathOrName :: "fileref pbx_entry \<Rightarrow> bool" where
  "hasPathOrName e = (case e of Comment _ \<Rightarrow> False | Obj r \<Rightarrow> truthy (fr_path r) \<or> truthy (fr_name r))"

text \<open>\<open>(refObj.path || refObj.name || '').replace(/"/g, '')\<close>\<close>

definition refPathOf :: "fileref \<Rightarrow> string" where
  "refPathOf r =
     stripQuotes (case fr_path r of
        Some p \<Rightarrow> (if p \<noteq> [] then p else (case fr_name r of Some n \<Rightarrow> n | None \<Rightarrow> []))
      | None \<Rightarrow> (case fr_name r of Some n \<Rightarrow> n | None \<Rightarrow> []))"

text \<open>The five comparisons of one iteration, joined by \<open>||\<close>.\<close>

definition pathMatches :: "string \<Rightarrow> string \<Rightarrow> bool" where
  "pathMatches refPath normalizedPath =
     (let fileName = lastSegment (CHR ''/'') normalizedPath in
      refPath = normalizedPath \<or>
      refPath = fileName \<or>
      endsWith refPath (CHR ''/'' # normalizedPath) \<or>
      endsWith refPath (CHR ''/'' # fileName) \<or>
      endsWith normalizedPath (CHR ''/'' # refPath))"

text \<open>
  The loop \<open>for (const [uuid, fileRefObj] of Object.entries(fileRefs))\<close>: it stops, with
  \<open>fileRef = uuid\<close>, at the first entry that passes the guards and any comparison.
\<close>

fun findFileRef :: "fileref pbx_section \<Rightarrow> string \<Rightarrow> string option" where
  "findFileRef [] normalizedPath = None"
| "findFileRef ((uuid, e) # rest) normalizedPath =
     (if isCommentKey uuid then findFileRef rest normalizedPath
      else (case e of
              Comment _ \<Rightarrow> findFileRef rest normalizedPath
            | Obj r \<Rightarrow>
                if hasPathOrName e \<and> pathMatches (refPathOf r) normalizedPath then Some uuid
                else findFileRef rest normalizedPath))"

text \<open>
  The file records of a section, in table order, each with its stored path (quotes
  stripped): the entries the loop compares.
\<close>

definition fileRecords :: "fileref pbx_section \<Rightarrow> (string \<times> string) list" where
  "fileRecords sec =
     concat (map (\<lambda>(uuid, e).
        (case e of
           Comment _ \<Rightarrow> []
         | Obj r \<Rightarrow> if \<not> isCommentKey uuid \<and> hasPathOrName e then [(uuid, refPathOf r)] else [])) sec)"

text \<open>
  The matcher as the specification words it: four passes in a fixed order, each over
  every file record before the next pass is tried, the first match of the first
  successful pass winning.
\<close>

definition spec_pass :: "(string \<Rightarrow> bool) \<Rightarrow> (string \<times> string) list \<Rightarrow> string option" where
  "spec_pass P recs = map_option fst (find (\<lambda>(uuid, stored). P stored) recs)"

definition spec_fourPassMatch :: "(string \<times> string) list \<Rightarrow> string \<Rightarrow> string option" where
  "spec_fourPassMatch recs normalizedPath =
     (let basename = lastSegment (CHR ''/'') normalizedPath in
      case spec_pass (\<lambda>stored. stored = normalizedPath) recs of
        Some u \<Rightarrow> Some u
      | None \<Rightarrow>
     (case spec_pass (\<lambda>stored. stored = basename) recs of
        Some u \<Rightarrow> Some u
      | None \<Rightarrow>
     (case spec_pass (\<lambda>stored. endsWith stored (CHR ''/'' # normalizedPath)) recs of
        Some u \<Rightarrow> Some u
      | None \<Rightarrow>
      spec_pass (\<lambda>stored. endsWith stored (CHR ''/'' # basename) \<or>
                           endsWith normalizedPath (CHR ''/'' # stored)) recs)))"

section \<open>The \<open>xcode\<close> package and the Node.js functions, as parameters\<close>

text \<open>
  The tool calls the \<open>xcode\<close> package for parsing, writing, adding and the first
  attempts at removing, and Node.js for the file system. Their code is not part of
  \<open>src/index.ts\<close>; they are parameters of the model. A call that mutates the project
  returns the project as the call left it, with the thrown value when it threw.
  \<open>parseSync\<close> stands for \<open>xcode.project(path)\<close> followed by \<open>parseSync()\<close>.
\<close>

record 'p xcode_lib =
  parseSync :: "string \<Rightarrow> js_error + 'p"
  writeSync :: "'p \<Rightarrow> js_error + string"
  pbxCreateGroup :: "string \<Rightarrow> 'p \<Rightarrow> (js_error + string) \<times> 'p"
  addSourceFile :: "string \<Rightarrow> string \<Rightarrow> 'p \<Rightarrow> js_error option \<times> 'p"
  addHeaderFile :: "string \<Rightarrow> string \<Rightarrow> 'p \<Rightarrow> js_error option \<times> 'p"
  addFramework :: "string \<Rightarrow> 'p \<Rightarrow> js_error option \<times> 'p"
  addResourceFile :: "string \<Rightarrow> 'p \<Rightarrow> js_error option \<times> 'p"
  removeSourceFile :: "string \<Rightarrow> 'p \<Rightarrow> js_error option \<times> 'p"
  removeHeaderFile :: "string \<Rightarrow> 'p \<Rightarrow> js_error option \<times> 'p"
  removeFramework :: "string \<Rightarrow> 'p \<Rightarrow> js_error option \<times> 'p"
  removeResourceFile :: "string \<Rightarrow> 'p \<Rightarrow> js_error option \<times> 'p"

record node_env =
  existsSync :: "string \<Rightarrow> bool"
  readdirSync :: "string \<Rightarrow> js_error + string list"
  join :: "string list \<Rightarrow> string"
  writeFileSync :: "string \<Rightarrow> string \<Rightarrow> js_error option"

text \<open>\<open>error instanceof Error ? error.message : "Unknown error"\<close>\<close>

definition errorMessage :: "js_error \<Rightarrow> string" where
  "errorMessage e = (case e of Error m \<Rightarrow> m | NonError \<Rightarrow> ''Unknown error'')"

text \<open>The \<open>TypeError\<close> of reading from, or enumerating, an absent section.\<close>

definition undefinedSection :: js_error where
  "undefinedSection = Error ''Cannot convert undefined or null to object''"

section \<open>The \<open>remove\<close> operation\<close>

text \<open>
  \<open>for (const [uuid, buildFileObj] of Object.entries(buildFiles))\<close>: the first build file
  whose \<open>fileRef\<close> is the matched file reference; the loop breaks there.
\<close>

fun findBuildFile :: "buildfile pbx_section \<Rightarrow> string \<Rightarrow> string option" where
  "findBuildFile [] fileRef = None"
| "findBuildFile ((uuid, e) # rest) fileRef =
     (if isCommentKey uuid then findBuildFile rest fileRef
      else (case e of
              Comment _ \<Rightarrow> findBuildFile rest fileRef
            | Obj b \<Rightarrow> if bf_fileRef b = Some fileRef then Some uuid else findBuildFile rest fileRef))"

text \<open>
  The package's removal method for the extension, with a second try on the base name for
  sources and headers. The result says whether one of them returned (\<open>removed = true\<close>);
  every exception is caught and leads to the manual removal.
\<close>

definition builtinRemove :: "'p xcode_lib \<Rightarrow> string \<Rightarrow> 'p \<Rightarrow> bool \<times> 'p" where
  "builtinRemove lib normalizedPath p =
     (case classify (extOf normalizedPath) of
        Source \<Rightarrow>
          (case removeSourceFile lib normalizedPath p of
             (None, p1) \<Rightarrow> (True, p1)
           | (Some e, p1) \<Rightarrow>
               (case removeSourceFile lib (lastSegment (CHR ''/'') normalizedPath) p1 of
                  (None, p2) \<Rightarrow> (True, p2)
                | (Some e2, p2) \<Rightarrow> (False, p2)))
      | Header \<Rightarrow>
          (case removeHeaderFile lib normalizedPath p of
             (None, p1) \<Rightarrow> (True, p1)
           | (Some e, p1) \<Rightarrow>
               (case removeHeaderFile lib (lastSegment (CHR ''/'') normalizedPath) p1 of
                  (None, p2) \<Rightarrow> (True, p2)
                | (Some e2, p2) \<Rightarrow> (False, p2)))
      | FrameworkOrLibrary \<Rightarrow>
          (case removeFramework lib normalizedPath p of
             (None, p1) \<Rightarrow> (True, p1)
           | (Some e, p1) \<Rightarrow> (False, p1))
      | Resource \<Rightarrow>
          (case removeResourceFile lib normalizedPath p of
             (None, p1) \<Rightarrow> (True, p1)
           | (Some e, p1) \<Rightarrow> (False, p1)))"

text \<open>\<open>delete section[key]\<close>\<close>

definition deleteKey :: "string \<Rightarrow> 'a pbx_section \<Rightarrow> 'a pbx_section" where
  "deleteKey key sec = filter (\<lambda>(k, v). k \<noteq> key) sec"

text \<open>
  \<open>phase.files = phase.files.filter(f => f.value !== buildFileUuid)\<close> for every key of a
  build-phase section that is not a comment key and whose \<open>files\<close> is an array. When no
  build file was found \<open>buildFileUuid\<close> is \<open>null\<close> and every member stays.
\<close>

definition filterPhases :: "string option \<Rightarrow> phase pbx_section \<Rightarrow> phase pbx_section" where
  "filterPhases buildFileUuid sec =
     map (\<lambda>(phaseKey, e).
        if isCommentKey phaseKey then (phaseKey, e)
        else (case e of
                Comment c \<Rightarrow> (phaseKey, e)
              | Obj ph \<Rightarrow>
                  (case ph_files ph of
                     None \<Rightarrow> (phaseKey, e)
                   | Some fs \<Rightarrow>
                       (phaseKey,
                        Obj (ph\<lparr>ph_files := Some (filter (\<lambda>f. Some (ch_value f) \<noteq> buildFileUuid) fs)\<rparr>))))) sec"

text \<open>
  \<open>group.children = group.children.filter(child => child.value !== fileRef)\<close> for every
  key of the group section that is not a comment key and whose \<open>children\<close> is an array.
\<close>

definition filterGroups :: "string \<Rightarrow> group pbx_section \<Rightarrow> group pbx_section" where
  "filterGroups fileRef sec =
     map (\<lambda>(groupKey, e).
        if isCommentKey groupKey then (groupKey, e)
        else (case e of
                Comment c \<Rightarrow> (groupKey, e)
              | Obj g \<Rightarrow>
                  (case grp_children g of
                     None \<Rightarrow> (groupKey, e)
                   | Some cs \<Rightarrow>
                       (groupKey,
                        Obj (g\<lparr>grp_children := Some (filter (\<lambda>c. ch_value c \<noteq> fileRef) cs)\<rparr>))))) sec"

text \<open>
  The manual removal (\<open>if (!removed)\<close>): the file reference and its comment, the build
  file and its comment when one was found (\<open>if (buildFileUuid)\<close>, so not for an empty
  identifier), then the three build-phase sections and the group section. The sections
  are the objects the package mutates in place.
\<close>

definition manualRemove :: "string \<Rightarrow> string option \<Rightarrow> 'a project_scheme \<Rightarrow> 'a project_scheme" where
  "manualRemove fileRef buildFileUuid p =
     p\<lparr>PBXFileReference :=
         map_option (\<lambda>sec. deleteKey (fileRef @ ''_comment'') (deleteKey fileRef sec))
           (PBXFileReference p),
       PBXBuildFile :=
         (case buildFileUuid of
            None \<Rightarrow> PBXBuildFile p
          | Some b \<Rightarrow>
              if b = [] then PBXBuildFile p
              else map_option (\<lambda>sec. deleteKey (b @ ''_comment'') (deleteKey b sec)) (PBXBuildFile p)),
       PBXSourcesBuildPhase := map_option (filterPhases buildFileUuid) (PBXSourcesBuildPhase p),
       PBXResourcesBuildPhase := map_option (filterPhases buildFileUuid) (PBXResourcesBuildPhase p),
       PBXFrameworksBuildPhase := map_option (filterPhases buildFileUuid) (PBXFrameworksBuildPhase p),
       PBXGroup := map_option (filterGroups fileRef) (PBXGroup p)\<rparr>"

text \<open>
  The text of \<open>result\<close>, by the template that produced it: \<open>Added source file: ...\<close>,
  \<open>Added header file: ...\<close>, \<open>Added framework: ...\<close>, \<open>Added resource file: ...\<close>,
  \<open>Removed file: ...\<close>, and \<open>File not found in project: ... Files in project: ...\<close> with the
  first ten stored paths and whether there were more (\<open>...\<close>).
\<close>

datatype sync_result =
    AddedSource string
  | AddedHeader string
  | AddedFramework string
  | AddedResource string
  | RemovedFile string
  | FileNotFound string "string list" bool

text \<open>The loop that fills \<open>foundFiles\<close> in the not-found branch.\<close>

definition foundFiles :: "fileref pbx_section \<Rightarrow> string list" where
  "foundFiles fileRefs = map snd (fileRecords fileRefs)"

text \<open>
  The \<open>remove\<close> branch up to the assignment of \<open>result\<close>. It returns the result, or the
  exception that leaves the branch, and the project in memory. \<open>pbxFileReferenceSection()\<close>
  and \<open>pbxBuildFileSection()\<close> are the package's accessors of the two sections;
  \<open>Object.entries\<close> of an absent one raises. The \<open>catch\<close> around the
  removal (\<open>Error removing file\<close>) is not reachable in this model: the package's calls have
  their own handlers and the manual removal raises nothing on these types.
\<close>

definition removeOp ::
  "'a project_scheme xcode_lib \<Rightarrow> 'a project_scheme \<Rightarrow> string \<Rightarrow> (js_error + sync_result) \<times> 'a project_scheme" where
  "removeOp lib p filePath =
     (let normalizedPath = normalizePath filePath in
      case PBXFileReference p of
        None \<Rightarrow> (Inl undefinedSection, p)
      | Some fileRefs \<Rightarrow>
          (let notFound = (Inr (FileNotFound normalizedPath (take 10 (foundFiles fileRefs))
                                  (10 < length (foundFiles fileRefs))), p) in
           case findFileRef fileRefs normalizedPath of
             None \<Rightarrow> notFound
           | Some fileRef \<Rightarrow>
               if fileRef = [] then notFound
               else (case PBXBuildFile p of
                       None \<Rightarrow> (Inl undefinedSection, p)
                     | Some buildFiles \<Rightarrow>
                         (let buildFileUuid = findBuildFile buildFiles fileRef in
                          case builtinRemove lib normalizedPath p of
                            (True, p1) \<Rightarrow> (Inr (RemovedFile normalizedPath), p1)
                          | (False, p1) \<Rightarrow>
                              (Inr (RemovedFile normalizedPath), manualRemove fileRef buildFileUuid p1)))))"

section \<open>The \<open>add\<close> operation\<close>

text \<open>
  \<open>group.children.some(child => ...)\<close>: some child is the key of a file reference with a
  truthy \<open>path\<close> that, quotes removed, ends with \<open>.swift\<close>, \<open>.m\<close> or \<open>.mm\<close>.
\<close>

definition hasSourceFiles :: "fileref pbx_section \<Rightarrow> child list \<Rightarrow> bool" where
  "hasSourceFiles fileRefs cs =
     list_ex (\<lambda>child.
        (case map_of fileRefs (ch_value child) of
           Some (Obj fileRef) \<Rightarrow>
             (case fr_path fileRef of
                Some p \<Rightarrow>
                  p \<noteq> [] \<and>
                  (let path = stripQuotes p in
                   endsWith path ''.swift'' \<or> endsWith path ''.m'' \<or> endsWith path ''.mm'')
              | None \<Rightarrow> False)
         | _ \<Rightarrow> False)) cs"

text \<open>
  \<open>for (const groupKey in groups)\<close>: the key of the first group, not a comment key, with
  a non-empty \<open>children\<close> array for which \<open>hasSourceFiles\<close> holds; \<open>null\<close> when there is
  none. Looking a child up in an absent file-reference section raises a \<open>TypeError\<close>.
\<close>

fun locateGroup :: "fileref pbx_section option \<Rightarrow> group pbx_section \<Rightarrow> js_error + string option" where
  "locateGroup fileRefs [] = Inr None"
| "locateGroup fileRefs ((groupKey, e) # rest) =
     (if isCommentKey groupKey then locateGroup fileRefs rest
      else (case e of
              Comment _ \<Rightarrow> locateGroup fileRefs rest
            | Obj g \<Rightarrow>
                (case grp_children g of
                   None \<Rightarrow> locateGroup fileRefs rest
                 | Some cs \<Rightarrow>
                     if cs = [] then locateGroup fileRefs rest
                     else (case fileRefs of
                             None \<Rightarrow> Inl undefinedSection
                           | Some refs \<Rightarrow>
                               if hasSourceFiles refs cs then Inr (Some groupKey)
                               else locateGroup fileRefs rest))))"

text \<open>
  \<open>if (groupName) ... else { const newGroupKey = project.pbxCreateGroup(name); ... }\<close>:
  the located group when it is truthy, else the key of a group the package creates.
\<close>

definition targetGroup ::
  "'p xcode_lib \<Rightarrow> string \<Rightarrow> string option \<Rightarrow> 'p \<Rightarrow> (js_error + string) \<times> 'p" where
  "targetGroup lib newName groupName p =
     (case groupName of
        None \<Rightarrow> pbxCreateGroup lib newName p
      | Some g \<Rightarrow> if g \<noteq> [] then (Inr g, p) else pbxCreateGroup lib newName p)"

text \<open>A call of the package that adds, followed by the assignment of \<open>result\<close>.\<close>

definition added :: "sync_result \<Rightarrow> js_error option \<times> 'p \<Rightarrow> (js_error + sync_result) \<times> 'p" where
  "added res r = (case r of (None, p1) \<Rightarrow> (Inr res, p1) | (Some e, p1) \<Rightarrow> (Inl e, p1))"

text \<open>
  The \<open>add\<close> branch after the existence check: the group search, then one call of the
  package chosen by the extension. Frameworks and resources are added without a group.
\<close>

definition addOp ::
  "'a project_scheme xcode_lib \<Rightarrow> 'a project_scheme \<Rightarrow> string \<Rightarrow> (js_error + sync_result) \<times> 'a project_scheme" where
  "addOp lib p filePath =
     (let ext = extOf filePath in
      case locateGroup (PBXFileReference p) (case PBXGroup p of None \<Rightarrow> [] | Some groups \<Rightarrow> groups) of
        Inl e \<Rightarrow> (Inl e, p)
      | Inr groupName \<Rightarrow>
          (case classify ext of
             Source \<Rightarrow>
               (case targetGroup lib ''Sources'' groupName p of
                  (Inl e, p1) \<Rightarrow> (Inl e, p1)
                | (Inr g, p1) \<Rightarrow> added (AddedSource filePath) (addSourceFile lib filePath g p1))
           | Header \<Rightarrow>
               (case targetGroup lib ''Headers'' groupName p of
                  (Inl e, p1) \<Rightarrow> (Inl e, p1)
                | (Inr g, p1) \<Rightarrow> added (AddedHeader filePath) (addHeaderFile lib filePath g p1))
           | FrameworkOrLibrary \<Rightarrow> added (AddedFramework filePath) (addFramework lib filePath p)
           | Resource \<Rightarrow> added (AddedResource filePath) (addResourceFile lib filePath p)))"

text \<open>
  The group locator as the specification words it: the first group, in table order, whose
  children include a file record of kind source, the kind of a record being the
  classifier's for its stored path.
\<close>

definition spec_isSourceRecord :: "fileref pbx_section \<Rightarrow> string \<Rightarrow> bool" where
  "spec_isSourceRecord fileRefs uuid =
     (case map_of (fileRecords fileRefs) uuid of
        None \<Rightarrow> False
      | Some stored \<Rightarrow> classify (extOf stored) = Source)"

definition spec_locateGroup :: "fileref pbx_section \<Rightarrow> group pbx_section \<Rightarrow> string option" where
  "spec_locateGroup fileRefs groups =
     map_option fst (find (\<lambda>(groupKey, e).
        \<not> isCommentKey groupKey \<and>
        (case e of
           Comment _ \<Rightarrow> False
         | Obj g \<Rightarrow>
             (case grp_children g of
                None \<Rightarrow> False
              | Some cs \<Rightarrow> list_ex (\<lambda>c. spec_isSourceRecord fileRefs (ch_value c)) cs))) groups)"

section \<open>The tool \<open>sync_xcode_project\<close>\<close>

text \<open>
  The arguments of the tool, strings as its input schema requires. The reply is the text
  returned, by the template that produced it; \<open>ProjectUpdated\<close> carries \<open>result\<close>, and
  \<open>SyncFailed\<close> is the reply of the \<open>catch\<close> around parsing, the operation and writing.
\<close>

record sync_args =
  projectPath :: string
  operation :: string
  filePath :: string

datatype sync_response =
    IosDirNotFound string
  | NoXcodeprojFound string
  | PbxprojNotFound string
  | FileDoesNotExist string
  | UnknownOperation string
  | ProjectUpdated sync_result
  | SyncFailed string

text \<open>
  What one call of the tool did: its reply (or the exception that leaves the \<open>case\<close>),
  the project in memory when one was parsed, and the call of \<open>writeFileSync\<close> when one
  was made, with its path and text.
\<close>

record 'p sync_outcome =
  reply :: "js_error + sync_response"
  graph :: "'p option"
  wrote :: "(string \<times> string) option"

text \<open>\<open>writeFileSync(pbxprojPath, project.writeSync())\<close> and the reply that follows.\<close>

definition persist ::
  "node_env \<Rightarrow> 'p xcode_lib \<Rightarrow> string \<Rightarrow> sync_result \<Rightarrow> 'p \<Rightarrow> 'p sync_outcome" where
  "persist env lib pbxprojPath res p =
     (case writeSync lib p of
        Inl e \<Rightarrow> \<lparr>reply = Inr (SyncFailed (errorMessage e)), graph = Some p, wrote = None\<rparr>
      | Inr text \<Rightarrow>
          (case writeFileSync env pbxprojPath text of
             Some e \<Rightarrow> \<lparr>reply = Inr (SyncFailed (errorMessage e)), graph = Some p,
                         wrote = Some (pbxprojPath, text)\<rparr>
           | None \<Rightarrow> \<lparr>reply = Inr (ProjectUpdated res), graph = Some p,
                       wrote = Some (pbxprojPath, text)\<rparr>))"

text \<open>The body of the \<open>try\<close> after \<open>parseSync\<close>, on the parsed project.\<close>

definition syncParsed ::
  "node_env \<Rightarrow> 'a project_scheme xcode_lib \<Rightarrow> string \<Rightarrow> string \<Rightarrow> 'a project_scheme \<Rightarrow>
   string \<Rightarrow> string \<Rightarrow> 'a project_scheme sync_outcome" where
  "syncParsed env lib iosPath pbxprojPath project op fp =
     (if op = ''add'' then
        (let absoluteFilePath = join env [iosPath, fp] in
         if \<not> existsSync env absoluteFilePath then
           \<lparr>reply = Inr (FileDoesNotExist absoluteFilePath), graph = Some project, wrote = None\<rparr>
         else (case addOp lib project fp of
                 (Inl e, p1) \<Rightarrow> \<lparr>reply = Inr (SyncFailed (errorMessage e)), graph = Some p1, wrote = None\<rparr>
               | (Inr res, p1) \<Rightarrow> persist env lib pbxprojPath res p1))
      else if op = ''remove'' then
        (case removeOp lib project fp of
           (Inl e, p1) \<Rightarrow> \<lparr>reply = Inr (SyncFailed (errorMessage e)), graph = Some p1, wrote = None\<rparr>
         | (Inr res, p1) \<Rightarrow> persist env lib pbxprojPath res p1)
      else \<lparr>reply = Inr (UnknownOperation op), graph = Some project, wrote = None\<rparr>)"

text \<open>The whole \<open>case "sync_xcode_project"\<close>.\<close>

definition sync_xcode_project ::
  "node_env \<Rightarrow> 'a project_scheme xcode_lib \<Rightarrow> 'b sync_args_scheme \<Rightarrow> 'a project_scheme sync_outcome" where
  "sync_xcode_project env lib args =
     (let iosPath = join env [projectPath args, ''ios''] in
      if \<not> existsSync env iosPath then
        \<lparr>reply = Inr (IosDirNotFound iosPath), graph = None, wrote = None\<rparr>
      else (case readdirSync env iosPath of
              Inl e \<Rightarrow> \<lparr>reply = Inl e, graph = None, wrote = None\<rparr>
            | Inr names \<Rightarrow>
                (case find (\<lambda>f. endsWith f ''.xcodeproj'') names of
                   None \<Rightarrow> \<lparr>reply = Inr (NoXcodeprojFound iosPath), graph = None, wrote = None\<rparr>
                 | Some xcodeProj \<Rightarrow>
                     (let pbxprojPath = join env [iosPath, xcodeProj, ''project.pbxproj''] in
                      if \<not> existsSync env pbxprojPath then
                        \<lparr>reply = Inr (PbxprojNotFound pbxprojPath), graph = None, wrote = None\<rparr>
                      else (case parseSync lib pbxprojPath of
                              Inl e \<Rightarrow> \<lparr>reply = Inr (SyncFailed (errorMessage e)), graph = None,
                                         wrote = None\<rparr>
                            | Inr project \<Rightarrow>
                                syncParsed env lib iosPath pbxprojPath project
                                  (operation args) (filePath args))))))"

section \<open>The entry point \<open>handleToolCall\<close>\<close>

text \<open>
  \<open>if (!args) throw new Error("Missing arguments")\<close> stands before the \<open>try\<close>; the
  \<open>switch\<close> is inside it, and its \<open>catch\<close> turns every exception into the reply
  \<open>Error: message\<close>. The seven other tools are a parameter, each returning its text or
  raising; a name that is none of the eight raises \<open>Unknown tool\<close> inside the \<open>try\<close>.
\<close>

datatype tool_response = SyncReply sync_response | OtherReply string | ErrorReply string

datatype completion = Returned tool_response | Thrown js_error

definition otherToolNames :: "string list" where
  "otherToolNames =
     [''get_upgrade_workflow'', ''get_current_rn_version'', ''get_target_version'',
      ''get_upgrade_diff_files'', ''get_file_specific_diff'', ''analyze_file_type'',
      ''create_upgrade_todo_list'']"

definition toolSwitch ::
  "node_env \<Rightarrow> 'a project_scheme xcode_lib \<Rightarrow> (string \<Rightarrow> 'b sync_args_scheme \<Rightarrow> js_error + string) \<Rightarrow>
   string \<Rightarrow> 'b sync_args_scheme \<Rightarrow> js_error + tool_response" where
  "toolSwitch env lib otherTools name args =
     (if name \<in> set otherToolNames then
        (case otherTools name args of Inl e \<Rightarrow> Inl e | Inr text \<Rightarrow> Inr (OtherReply text))
      else if name = ''sync_xcode_project'' then
        (case reply (sync_xcode_project env lib args) of
           Inl e \<Rightarrow> Inl e
         | Inr r \<Rightarrow> Inr (SyncReply r))
      else Inl (Error (''Unknown tool: '' @ name)))"

definition handleToolCall ::
  "node_env \<Rightarrow> 'a project_scheme xcode_lib \<Rightarrow> (string \<Rightarrow> 'b sync_args_scheme \<Rightarrow> js_error + string) \<Rightarrow>
   string \<Rightarrow> 'b sync_args_scheme option \<Rightarrow> completion" where
  "handleToolCall env lib otherTools name args =
     (case args of
        None \<Rightarrow> Thrown (Error ''Missing arguments'')
      | Some a \<Rightarrow>
          (case toolSwitch env lib otherTools name a of
             Inl e \<Rightarrow> Returned (ErrorReply (errorMessage e))
           | Inr r \<Rightarrow> Returned r))"

section \<open>What a project refers to\<close>

text \<open>
  The records of a section are its entries that are objects under a key that is not a
  comment key; the comment keys hold the comments of the file format. The identifiers a
  project refers to are read off the records: the file reference of each build file,
  the members of each build phase, the children of each group.
\<close>

definition records :: "'a pbx_section option \<Rightarrow> (string \<times> 'a) list" where
  "records sec =
     concat (map (\<lambda>(k, e). (case e of Comment _ \<Rightarrow> [] | Obj r \<Rightarrow> if isCommentKey k then [] else [(k, r)]))
       (case sec of None \<Rightarrow> [] | Some s \<Rightarrow> s))"

definition sectionKeys :: "'a pbx_section option \<Rightarrow> string list" where
  "sectionKeys sec = map fst (case sec of None \<Rightarrow> [] | Some s \<Rightarrow> s)"

definition buildFileTargets :: "'a project_scheme \<Rightarrow> string option list" where
  "buildFileTargets p = map (\<lambda>(k, b). bf_fileRef b) (records (PBXBuildFile p))"

definition phaseMemberIds :: "'a project_scheme \<Rightarrow> string list" where
  "phaseMemberIds p =
     concat (map (\<lambda>(k, ph). (case ph_files ph of None \<Rightarrow> [] | Some fs \<Rightarrow> map ch_value fs))
       (records (PBXSourcesBuildPhase p) @ records (PBXResourcesBuildPhase p) @
        records (PBXFrameworksBuildPhase p)))"

definition groupChildIds :: "'a project_scheme \<Rightarrow> string list" where
  "groupChildIds p =
     concat (map (\<lambda>(k, g). (case grp_children g of None \<Rightarrow> [] | Some cs \<Rightarrow> map ch_value cs))
       (records (PBXGroup p)))"

section \<open>Replies that report a failure\<close>

text \<open>Every reply of the tool but \<open>Xcode Project Updated\<close> starts with \<open>Error:\<close>; an
  exception that leaves the tool becomes such a reply in \<open>handleToolCall\<close>.\<close>

definition isErrorReply :: "js_error + sync_response \<Rightarrow> bool" where
  "isErrorReply r = (case r of Inl e \<Rightarrow> True | Inr (ProjectUpdated res) \<Rightarrow> False | Inr _ \<Rightarrow> True)"

section \<open>Example inputs\<close>

text \<open>A project with one source file that two targets compile: two build files refer to
  the file reference, one in each target's sources phase.\<close>

definition twoTargetsFileRefs :: "fileref pbx_section" where
  "twoTargetsFileRefs = [(''F1'', Obj \<lparr>fr_path = Some ''App.swift'', fr_name = None\<rparr>)]"

definition twoTargetsBuildFiles :: "buildfile pbx_section" where
  "twoTargetsBuildFiles =
     [(''B1'', Obj \<lparr>bf_fileRef = Some ''F1''\<rparr>), (''B2'', Obj \<lparr>bf_fileRef = Some ''F1''\<rparr>)]"

definition twoTargets :: project where
  "twoTargets =
     \<lparr>PBXFileReference = Some twoTargetsFileRefs,
      PBXBuildFile = Some twoTargetsBuildFiles,
      PBXGroup = Some [(''G1'', Obj \<lparr>grp_children = Some [\<lparr>ch_value = ''F1'', ch_comment = ''App.swift''\<rparr>]\<rparr>)],
      PBXSourcesBuildPhase =
        Some [(''P1'', Obj \<lparr>ph_files = Some [\<lparr>ch_value = ''B1'', ch_comment = ''App.swift in Sources''\<rparr>]\<rparr>),
              (''P2'', Obj \<lparr>ph_files = Some [\<lparr>ch_value = ''B2'', ch_comment = ''App.swift in Sources''\<rparr>]\<rparr>)],
      PBXResourcesBuildPhase = None,
      PBXFrameworksBuildPhase = None\<rparr>"

text \<open>A package that parses every file to that project, writes a fixed text, and none
  of whose adding and removing calls succeeds.\<close>

definition throwingLib :: "project xcode_lib" where
  "throwingLib =
     \<lparr>parseSync = (\<lambda>path. Inr twoTargets),
      writeSync = (\<lambda>p. Inr ''// !$*UTF8*$!''),
      pbxCreateGroup = (\<lambda>name p. (Inl (Error ''unsupported''), p)),
      addSourceFile = (\<lambda>path g p. (Some (Error ''unsupported''), p)),
      addHeaderFile = (\<lambda>path g p. (Some (Error ''unsupported''), p)),
      addFramework = (\<lambda>path p. (Some (Error ''unsupported''), p)),
      addResourceFile = (\<lambda>path p. (Some (Error ''unsupported''), p)),
      removeSourceFile = (\<lambda>path p. (Some (Error ''unsupported''), p)),
      removeHeaderFile = (\<lambda>path p. (Some (Error ''unsupported''), p)),
      removeFramework = (\<lambda>path p. (Some (Error ''unsupported''), p)),
      removeResourceFile = (\<lambda>path p. (Some (Error ''unsupported''), p))\<rparr>"

text \<open>Two file references with the same base name, the nested one first in the table.\<close>

definition nestedFirst :: "fileref pbx_section" where
  "nestedFirst =
     [(''A'', Obj \<lparr>fr_path = Some ''legacy/AppDelegate.swift'', fr_name = None\<rparr>),
      (''A_comment'', Comment ''AppDelegate.swift''),
      (''B'', Obj \<lparr>fr_path = Some ''AppDelegate.swift'', fr_name = None\<rparr>),
      (''B_comment'', Comment ''AppDelegate.swift'')]"

text \<open>The same package with adding calls that succeed and a group creation that
  returns a fixed key; the project is left as it is.\<close>

definition acceptingLib :: "project xcode_lib" where
  "acceptingLib =
     throwingLib
       \<lparr>pbxCreateGroup := (\<lambda>name p. (Inr ''NEWGROUP'', p)),
        addSourceFile := (\<lambda>path g p. (None, p)),
        addHeaderFile := (\<lambda>path g p. (None, p)),
        addFramework := (\<lambda>path p. (None, p)),
        addResourceFile := (\<lambda>path p. (None, p))\<rparr>"

text \<open>A group holding only a C++ file before a group holding a Swift file.\<close>

definition cppBeforeSwiftRefs :: "fileref pbx_section" where
  "cppBeforeSwiftRefs =
     [(''F1'', Obj \<lparr>fr_path = Some ''core.cpp'', fr_name = None\<rparr>),
      (''F2'', Obj \<lparr>fr_path = Some ''App.swift'', fr_name = None\<rparr>)]"

definition cppBeforeSwiftGroups :: "group pbx_section" where
  "cppBeforeSwiftGroups =
     [(''G1'', Obj \<lparr>grp_children = Some [\<lparr>ch_value = ''F1'', ch_comment = ''core.cpp''\<rparr>]\<rparr>),
      (''G2'', Obj \<lparr>grp_children = Some [\<lparr>ch_value = ''F2'', ch_comment = ''App.swift''\<rparr>]\<rparr>)]"

definition cppBeforeSwift :: project where
  "cppBeforeSwift =
     \<lparr>PBXFileReference = Some cppBeforeSwiftRefs,
      PBXBuildFile = Some [],
      PBXGroup = Some cppBeforeSwiftGroups,
      PBXSourcesBuildPhase = Some [(''P1'', Obj \<lparr>ph_files = Some []\<rparr>)],
      PBXResourcesBuildPhase = None,
      PBXFrameworksBuildPhase = None\<rparr>"

text \<open>A file system with the project \<open>/app/ios/App.xcodeproj\<close> and no other file; paths
  are joined with \<open>/\<close>.\<close>

fun joinSlash :: "string list \<Rightarrow> string" where
  "joinSlash [] = ''.''"
| "joinSlash [s] = s"
| "joinSlash (s # rest) = s @ ''/'' @ joinSlash rest"

definition oneProjectEnv :: node_env where
  "oneProjectEnv =
     \<lparr>existsSync = (\<lambda>path. path = ''/app/ios'' \<or> path = ''/app/ios/App.xcodeproj/project.pbxproj''),
      readdirSync = (\<lambda>path. if path = ''/app/ios'' then Inr [''Podfile'', ''App.xcodeproj'']
                             else Inl (Error ''ENOENT'')),
      join = joinSlash,
      writeFileSync = (\<lambda>path text. None)\<rparr>"

definition noOtherTools :: "string \<Rightarrow> sync_args \<Rightarrow> js_error + string" where
  "noOtherTools name args = Inr ''ok''"

text \<open>Other tools that all raise, as \<open>JSON.parse\<close> does in \<open>get_current_rn_version\<close> on a
  malformed \<open>package.json\<close>.\<close>

definition failingOtherTools :: "string \<Rightarrow> sync_args \<Rightarrow> js_error + string" where
  "failingOtherTools name args = Inl (Error ''Unexpected token in JSON'')"

section \<open>Properties\<close>

text \<open>
  C5. The classifier is total on extensions: \<open>swift\<close>, \<open>m\<close>, \<open>mm\<close>, \<open>cpp\<close>, \<open>c\<close> are
  sources; \<open>h\<close>, \<open>hpp\<close> are headers; \<open>framework\<close>, \<open>a\<close>, \<open>dylib\<close> are frameworks or
  libraries; every other extension is a resource. Each extension gets exactly one of the
  four kinds and none is rejected.
\<close>

theorem classify_total:
  "(classify ext = Source) = (ext \<in> {''swift'', ''m'', ''mm'', ''cpp'', ''c''}) \<and>
   (classify ext = Header) = (ext \<in> {''h'', ''hpp''}) \<and>
   (classify ext = FrameworkOrLibrary) = (ext \<in> {''framework'', ''a'', ''dylib''}) \<and>
   (classify ext = Resource) =
     (ext \<notin> {''swift'', ''m'', ''mm'', ''cpp'', ''c'', ''h'', ''hpp'', ''framework'', ''a'', ''dylib''})"
  by (simp add: classify_def)

subsection \<open>The matcher is one pass\<close>

lemma find_None_conv: "(find P xs = None) = (\<forall>x \<in> set xs. \<not> P x)"
  by (induction xs) auto

lemma spec_pass_None: "(spec_pass P recs = None) = (\<forall>x \<in> set recs. \<not> P (snd x))"
  by (auto simp: spec_pass_def find_None_conv)

lemma spec_fourPassMatch_None:
  "(spec_fourPassMatch recs np = None) = (\<forall>x \<in> set recs. \<not> pathMatches (snd x) np)"
proof -
  have "(spec_fourPassMatch recs np = None) =
        (spec_pass (\<lambda>stored. stored = np) recs = None \<and>
         spec_pass (\<lambda>stored. stored = lastSegment (CHR ''/'') np) recs = None \<and>
         spec_pass (\<lambda>stored. endsWith stored (CHR ''/'' # np)) recs = None \<and>
         spec_pass (\<lambda>stored. endsWith stored (CHR ''/'' # lastSegment (CHR ''/'') np) \<or>
                              endsWith np (CHR ''/'' # stored)) recs = None)"
    by (simp add: spec_fourPassMatch_def Let_def split: option.splits)
  also have "\<dots> = (\<forall>x \<in> set recs. \<not> pathMatches (snd x) np)"
    unfolding spec_pass_None pathMatches_def Let_def by blast
  finally show ?thesis .
qed

lemma findFileRef_find:
  "findFileRef sec np =
     map_option fst (find (\<lambda>(uuid, stored). pathMatches stored np) (fileRecords sec))"
  by (induction sec np rule: findFileRef.induct) (auto simp: fileRecords_def split: pbx_entry.splits)

lemma findFileRef_None:
  "(findFileRef sec np = None) = (spec_fourPassMatch (fileRecords sec) np = None)"
  by (auto simp: findFileRef_find spec_fourPassMatch_None find_None_conv)

text \<open>
  C2 (as stated). The matcher tries four passes in order, each against every file record
  before the next. It does not: with a nested \<open>legacy/AppDelegate.swift\<close> before
  \<open>AppDelegate.swift\<close> in the table, the path \<open>AppDelegate.swift\<close> resolves to the nested
  record, which only a suffix comparison matches, although the later record is equal to the
  path and the first pass of a four-pass matcher would return it.
\<close>

theorem matcher_four_pass_counterexample:
  "findFileRef nestedFirst (normalizePath ''AppDelegate.swift'') = Some ''A'' \<and>
   spec_fourPassMatch (fileRecords nestedFirst) (normalizePath ''AppDelegate.swift'') = Some ''B''"
  by code_simp

text \<open>
  C2 (amended). The matcher strips a leading \<open>ios/\<close> from the path and scans the file
  records once, in table order; the first record whose stored path satisfies any of the
  five comparisons (equal to the path, equal to its base name, ending with \<open>/\<close> and the
  path, ending with \<open>/\<close> and the base name, or the path ending with \<open>/\<close> and the stored
  path) wins. It finds no record exactly when the four-pass matcher finds none.
\<close>

theorem matcher_single_pass:
  "findFileRef sec (normalizePath fp) =
     (let np = normalizePath fp; base = lastSegment (CHR ''/'') np in
      map_option fst
        (find (\<lambda>(uuid, stored).
                 stored = np \<or> stored = base \<or> endsWith stored (CHR ''/'' # np) \<or>
                 endsWith stored (CHR ''/'' # base) \<or> endsWith np (CHR ''/'' # stored))
           (fileRecords sec))) \<and>
   normalizePath (''ios/'' @ rest) = rest \<and>
   (findFileRef sec (normalizePath fp) = None) =
     (spec_fourPassMatch (fileRecords sec) (normalizePath fp) = None)"
proof -
  have "normalizePath (''ios/'' @ rest) = rest"
    by (simp add: normalizePath_def startsWith_def)
  then show ?thesis
    using findFileRef_find[of sec "normalizePath fp"] findFileRef_None[of sec "normalizePath fp"]
    by (simp add: pathMatches_def Let_def)
qed

subsection \<open>The manual removal\<close>

lemma phase_members_filtered:
  "b \<notin> set (concat (map (\<lambda>(k, ph). (case ph_files ph of None \<Rightarrow> [] | Some fs \<Rightarrow> map ch_value fs))
       (records (map_option (filterPhases (Some b)) sec))))"
proof (cases sec)
  case None
  then show ?thesis by (simp add: records_def)
next
  case (Some s)
  have "b \<notin> set (concat (map (\<lambda>(k, ph). (case ph_files ph of None \<Rightarrow> [] | Some fs \<Rightarrow> map ch_value fs))
       (records (Some (filterPhases (Some b) s)))))"
    by (induction s)
      (auto simp: records_def filterPhases_def split: pbx_entry.splits option.splits if_splits)
  with Some show ?thesis by simp
qed

lemma group_children_filtered:
  "f \<notin> set (concat (map (\<lambda>(k, g). (case grp_children g of None \<Rightarrow> [] | Some cs \<Rightarrow> map ch_value cs))
       (records (map_option (filterGroups f) sec))))"
proof (cases sec)
  case None
  then show ?thesis by (simp add: records_def)
next
  case (Some s)
  have "f \<notin> set (concat (map (\<lambda>(k, g). (case grp_children g of None \<Rightarrow> [] | Some cs \<Rightarrow> map ch_value cs))
       (records (Some (filterGroups f s)))))"
    by (induction s)
      (auto simp: records_def filterGroups_def split: pbx_entry.splits option.splits if_splits)
  with Some show ?thesis by simp
qed

lemma manualRemove_fileRef_gone:
  "f \<notin> set (sectionKeys (PBXFileReference (manualRemove f b p)))"
  by (cases "PBXFileReference p") (auto simp: manualRemove_def sectionKeys_def deleteKey_def)

lemma manualRemove_buildFile_gone:
  "b \<noteq> [] \<Longrightarrow> b \<notin> set (sectionKeys (PBXBuildFile (manualRemove f (Some b) p)))"
  by (cases "PBXBuildFile p") (auto simp: manualRemove_def sectionKeys_def deleteKey_def)

lemma manualRemove_phases_clean: "b \<notin> set (phaseMemberIds (manualRemove f (Some b) p))"
  using phase_members_filtered[of b "PBXSourcesBuildPhase p"]
    phase_members_filtered[of b "PBXResourcesBuildPhase p"]
    phase_members_filtered[of b "PBXFrameworksBuildPhase p"]
  by (simp add: phaseMemberIds_def manualRemove_def)

lemma manualRemove_groups_clean: "f \<notin> set (groupChildIds (manualRemove f b p))"
  using group_children_filtered[of f "PBXGroup p"]
  by (simp add: groupChildIds_def manualRemove_def)

lemma removeOp_manual:
  assumes "PBXFileReference p = Some fileRefs"
    and "findFileRef fileRefs (normalizePath fp) = Some fileRef"
    and "fileRef \<noteq> []"
    and "PBXBuildFile p = Some buildFiles"
    and "builtinRemove lib (normalizePath fp) p = (False, p1)"
  shows "removeOp lib p fp =
           (Inr (RemovedFile (normalizePath fp)),
            manualRemove fileRef (findBuildFile buildFiles fileRef) p1)"
  using assms by (simp add: removeOp_def Let_def)

text \<open>
  What the manual removal does remove, whatever the package left behind: the file
  reference, the build file that was found, that build file from every member list of the
  three build-phase sections, and the file reference from every group's children.
\<close>

lemma manualRemove_cascade:
  assumes "PBXFileReference p = Some fileRefs"
    and "findFileRef fileRefs (normalizePath fp) = Some fileRef"
    and "fileRef \<noteq> []"
    and "PBXBuildFile p = Some buildFiles"
    and "builtinRemove lib (normalizePath fp) p = (False, p1)"
  shows "fst (removeOp lib p fp) = Inr (RemovedFile (normalizePath fp)) \<and>
         snd (removeOp lib p fp) = manualRemove fileRef (findBuildFile buildFiles fileRef) p1 \<and>
         fileRef \<notin> set (sectionKeys (PBXFileReference (snd (removeOp lib p fp)))) \<and>
         fileRef \<notin> set (groupChildIds (snd (removeOp lib p fp))) \<and>
         (\<forall>b. findBuildFile buildFiles fileRef = Some b \<longrightarrow>
              b \<notin> set (phaseMemberIds (snd (removeOp lib p fp))) \<and>
              (b \<noteq> [] \<longrightarrow> b \<notin> set (sectionKeys (PBXBuildFile (snd (removeOp lib p fp))))))"
proof -
  let ?p' = "manualRemove fileRef (findBuildFile buildFiles fileRef) p1"
  have eq: "removeOp lib p fp = (Inr (RemovedFile (normalizePath fp)), ?p')"
    using assms by (rule removeOp_manual)
  have "fileRef \<notin> set (sectionKeys (PBXFileReference ?p'))"
    by (rule manualRemove_fileRef_gone)
  moreover have "fileRef \<notin> set (groupChildIds ?p')"
    by (rule manualRemove_groups_clean)
  moreover have "\<forall>b. findBuildFile buildFiles fileRef = Some b \<longrightarrow>
      b \<notin> set (phaseMemberIds ?p') \<and> (b \<noteq> [] \<longrightarrow> b \<notin> set (sectionKeys (PBXBuildFile ?p')))"
    using manualRemove_phases_clean manualRemove_buildFile_gone by metis
  ultimately show ?thesis
    by (simp add: eq)
qed

lemma manualRemove_cascade_example:
  "PBXFileReference twoTargets = Some twoTargetsFileRefs \<and>
   findFileRef twoTargetsFileRefs (normalizePath ''ios/App.swift'') = Some ''F1'' \<and>
   ''F1'' \<noteq> [] \<and>
   PBXBuildFile twoTargets = Some twoTargetsBuildFiles \<and>
   builtinRemove throwingLib (normalizePath ''ios/App.swift'') twoTargets = (False, twoTargets) \<and>
   findBuildFile twoTargetsBuildFiles ''F1'' = Some ''B1'' \<and>
   fst (removeOp throwingLib twoTargets ''ios/App.swift'') = Inr (RemovedFile ''App.swift'') \<and>
   ''F1'' \<notin> set (groupChildIds (snd (removeOp throwingLib twoTargets ''ios/App.swift''))) \<and>
   ''B1'' \<notin> set (phaseMemberIds (snd (removeOp throwingLib twoTargets ''ios/App.swift''))) \<and>
   ''B1'' \<notin> set (sectionKeys (PBXBuildFile (snd (removeOp throwingLib twoTargets ''ios/App.swift''))))"
proof -
  have h1: "PBXFileReference twoTargets = Some twoTargetsFileRefs"
    by (simp add: twoTargets_def)
  have h2: "findFileRef twoTargetsFileRefs (normalizePath ''ios/App.swift'') = Some ''F1''"
    by code_simp
  have h3: "''F1'' \<noteq> []"
    by simp
  have h4: "PBXBuildFile twoTargets = Some twoTargetsBuildFiles"
    by (simp add: twoTargets_def)
  have h5: "builtinRemove throwingLib (normalizePath ''ios/App.swift'') twoTargets = (False, twoTargets)"
    by code_simp
  have h6: "findBuildFile twoTargetsBuildFiles ''F1'' = Some ''B1''"
    by code_simp
  have h7: "normalizePath ''ios/App.swift'' = ''App.swift''"
    by code_simp
  have h8: "''B1'' \<noteq> []"
    by simp
  have c: "fst (removeOp throwingLib twoTargets ''ios/App.swift'') =
             Inr (RemovedFile (normalizePath ''ios/App.swift'')) \<and>
           ''F1'' \<notin> set (groupChildIds (snd (removeOp throwingLib twoTargets ''ios/App.swift''))) \<and>
           ''B1'' \<notin> set (phaseMemberIds (snd (removeOp throwingLib twoTargets ''ios/App.swift''))) \<and>
           ''B1'' \<notin> set (sectionKeys (PBXBuildFile (snd (removeOp throwingLib twoTargets ''ios/App.swift''))))"
    using manualRemove_cascade[OF h1 h2 h3 h4 h5] h6 h8 by blast
  show ?thesis
    using c h1 h2 h3 h4 h5 h6 unfolding h7 by blast
qed

text \<open>
  C1. After a successful remove no build file, no member list of a build phase and no
  group's children refer to the removed file reference or to a build file of it. The code
  attempts this cascade but misses a case: the search for the build file stops at the
  first one, so when two targets compile the file and the package's own removal fails,
  the file reference and the first build file are deleted while the second build file
  stays, still referring to the deleted file reference, and stays listed in its phase.
\<close>

theorem remove_leaves_second_build_file:
  "fst (removeOp throwingLib twoTargets ''App.swift'') = Inr (RemovedFile ''App.swift'') \<and>
   ''F1'' \<notin> set (sectionKeys (PBXFileReference (snd (removeOp throwingLib twoTargets ''App.swift'')))) \<and>
   ''B1'' \<notin> set (sectionKeys (PBXBuildFile (snd (removeOp throwingLib twoTargets ''App.swift'')))) \<and>
   buildFileTargets (snd (removeOp throwingLib twoTargets ''App.swift'')) = [Some ''F1''] \<and>
   phaseMemberIds (snd (removeOp throwingLib twoTargets ''App.swift'')) = [''B2'']"
  by code_simp

subsection \<open>A path that matches nothing\<close>

lemma removeOp_not_found:
  assumes "PBXFileReference p = Some fileRefs"
    and "spec_fourPassMatch (fileRecords fileRefs) (normalizePath fp) = None"
  shows "removeOp lib p fp =
           (Inr (FileNotFound (normalizePath fp) (take 10 (foundFiles fileRefs))
                  (10 < length (foundFiles fileRefs))), p)"
proof -
  have "findFileRef fileRefs (normalizePath fp) = None"
    using assms(2) by (simp add: findFileRef_None)
  with assms(1) show ?thesis
    by (simp add: removeOp_def Let_def)
qed

text \<open>
  C3. When the path matches no file record under the four-pass matcher, remove reports
  that the file was not found, with at most ten of the stored paths, and leaves the
  project as it was parsed; what is then written is the serialization of that unchanged
  project.
\<close>

theorem remove_not_found_unchanged:
  assumes "PBXFileReference p = Some fileRefs"
    and "spec_fourPassMatch (fileRecords fileRefs) (normalizePath fp) = None"
  shows "removeOp lib p fp =
           (Inr (FileNotFound (normalizePath fp) (take 10 (foundFiles fileRefs))
                  (10 < length (foundFiles fileRefs))), p) \<and>
         length (take 10 (foundFiles fileRefs)) \<le> 10 \<and>
         set (take 10 (foundFiles fileRefs)) \<subseteq> snd ` set (fileRecords fileRefs) \<and>
         graph (syncParsed env lib iosPath pbxprojPath p ''remove'' fp) = Some p \<and>
         wrote (syncParsed env lib iosPath pbxprojPath p ''remove'' fp) =
           (case writeSync lib p of Inl e \<Rightarrow> None | Inr text \<Rightarrow> Some (pbxprojPath, text))"
proof -
  have nf: "removeOp lib p fp =
           (Inr (FileNotFound (normalizePath fp) (take 10 (foundFiles fileRefs))
                  (10 < length (foundFiles fileRefs))), p)"
    using assms by (rule removeOp_not_found)
  have sub: "set (take 10 (foundFiles fileRefs)) \<subseteq> snd ` set (fileRecords fileRefs)"
    using set_take_subset[of 10 "foundFiles fileRefs"] by (simp add: foundFiles_def)
  have "graph (syncParsed env lib iosPath pbxprojPath p ''remove'' fp) = Some p"
    by (simp add: syncParsed_def persist_def nf split: sum.splits option.splits)
  moreover have "wrote (syncParsed env lib iosPath pbxprojPath p ''remove'' fp) =
           (case writeSync lib p of Inl e \<Rightarrow> None | Inr text \<Rightarrow> Some (pbxprojPath, text))"
    by (simp add: syncParsed_def persist_def nf split: sum.splits option.splits)
  ultimately show ?thesis
    using nf sub by simp
qed

theorem remove_not_found_unchanged_witness:
  "PBXFileReference twoTargets = Some twoTargetsFileRefs \<and>
   spec_fourPassMatch (fileRecords twoTargetsFileRefs) (normalizePath ''missing/path.swift'') = None \<and>
   removeOp throwingLib twoTargets ''missing/path.swift'' =
     (Inr (FileNotFound ''missing/path.swift'' [''App.swift''] False), twoTargets) \<and>
   graph (syncParsed oneProjectEnv throwingLib ''/app/ios'' ''/app/ios/App.xcodeproj/project.pbxproj''
            twoTargets ''remove'' ''missing/path.swift'') = Some twoTargets \<and>
   wrote (syncParsed oneProjectEnv throwingLib ''/app/ios'' ''/app/ios/App.xcodeproj/project.pbxproj''
            twoTargets ''remove'' ''missing/path.swift'') =
     Some (''/app/ios/App.xcodeproj/project.pbxproj'', ''// !$*UTF8*$!'')"
proof -
  have h1: "PBXFileReference twoTargets = Some twoTargetsFileRefs"
    by (simp add: twoTargets_def)
  have h2: "spec_fourPassMatch (fileRecords twoTargetsFileRefs) (normalizePath ''missing/path.swift'') = None"
    by code_simp
  have e1: "normalizePath ''missing/path.swift'' = ''missing/path.swift''"
    by code_simp
  have e2: "take 10 (foundFiles twoTargetsFileRefs) = [''App.swift'']"
    by code_simp
  have e3: "(10 < length (foundFiles twoTargetsFileRefs)) = False"
    by code_simp
  have e4: "writeSync throwingLib twoTargets = Inr ''// !$*UTF8*$!''"
    by (simp add: throwingLib_def)
  show ?thesis
    using remove_not_found_unchanged[OF h1 h2, of throwingLib oneProjectEnv "''/app/ios''"
        "''/app/ios/App.xcodeproj/project.pbxproj''"] h1 h2
    unfolding e1 e2 e3 e4 by simp
qed

subsection \<open>The group an added file goes to\<close>

lemma locateGroup_find_gen:
  assumes Q: "\<And>k e. Q (k, e) =
     (\<not> isCommentKey k \<and>
      (case e of
         Comment _ \<Rightarrow> False
       | Obj g \<Rightarrow> (case grp_children g of None \<Rightarrow> False | Some cs \<Rightarrow> hasSourceFiles refs cs)))"
  shows "locateGroup (Some refs) groups = Inr (map_option fst (find Q groups))"
proof (induction groups)
  case Nil
  show ?case by simp
next
  case (Cons x groups)
  obtain k e where x: "x = (k, e)" by (cases x)
  have empty: "\<not> hasSourceFiles refs []"
    by (simp add: hasSourceFiles_def)
  show ?case
  proof (cases e)
    case (Comment c)
    with Cons x show ?thesis by (simp add: Q)
  next
    case (Obj g)
    show ?thesis
    proof (cases "grp_children g")
      case None
      with Cons x Obj show ?thesis by (simp add: Q)
    next
      case (Some cs)
      with Cons x Obj empty show ?thesis by (cases "cs = []") (simp_all add: Q)
    qed
  qed
qed

lemma locateGroup_find:
  "locateGroup (Some refs) groups =
     Inr (map_option fst (find (\<lambda>(groupKey, e).
        \<not> isCommentKey groupKey \<and>
        (case e of
           Comment _ \<Rightarrow> False
         | Obj g \<Rightarrow> (case grp_children g of None \<Rightarrow> False | Some cs \<Rightarrow> hasSourceFiles refs cs))) groups))"
  by (rule locateGroup_find_gen) simp

text \<open>
  C4 (as stated). The locator selects the first group with a child of kind source. It
  does not: a group whose only file is \<open>core.cpp\<close>, a source by the classifier, is passed
  over for a later group that holds a Swift file.
\<close>

theorem group_locator_counterexample:
  "locateGroup (Some cppBeforeSwiftRefs) cppBeforeSwiftGroups = Inr (Some ''G2'') \<and>
   spec_locateGroup cppBeforeSwiftRefs cppBeforeSwiftGroups = Some ''G1''"
  by code_simp

text \<open>
  C4 (amended). The locator scans the groups in table order and selects the first one
  with a child that is a file reference whose path ends with \<open>.swift\<close>, \<open>.m\<close> or \<open>.mm\<close>.
  A source or header file is added to that group; when there is none, the package is
  asked to create a group named \<open>Sources\<close> or \<open>Headers\<close> and the file is added to the key
  it returns. A framework, library or resource file is added without a group: the located
  group is not used and none is created.
\<close>

theorem group_locator_swift_objc:
  assumes "PBXFileReference p = Some refs" and "PBXGroup p = Some groups"
  shows "(let located = map_option fst (find (\<lambda>(groupKey, e).
            \<not> isCommentKey groupKey \<and>
            (case e of
               Comment _ \<Rightarrow> False
             | Obj g \<Rightarrow> (case grp_children g of None \<Rightarrow> False | Some cs \<Rightarrow> hasSourceFiles refs cs)))
            groups) in
          locateGroup (PBXFileReference p) groups = Inr located \<and>
          (classify (extOf fp) = Source \<longrightarrow>
             addOp lib p fp =
               (case targetGroup lib ''Sources'' located p of
                  (Inl e, p1) \<Rightarrow> (Inl e, p1)
                | (Inr g, p1) \<Rightarrow> added (AddedSource fp) (addSourceFile lib fp g p1))) \<and>
          (classify (extOf fp) = Header \<longrightarrow>
             addOp lib p fp =
               (case targetGroup lib ''Headers'' located p of
                  (Inl e, p1) \<Rightarrow> (Inl e, p1)
                | (Inr g, p1) \<Rightarrow> added (AddedHeader fp) (addHeaderFile lib fp g p1))) \<and>
          (classify (extOf fp) = FrameworkOrLibrary \<longrightarrow>
             addOp lib p fp = added (AddedFramework fp) (addFramework lib fp p)) \<and>
          (classify (extOf fp) = Resource \<longrightarrow>
             addOp lib p fp = added (AddedResource fp) (addResourceFile lib fp p))) \<and>
         targetGroup lib newName None p = pbxCreateGroup lib newName p \<and>
         (g \<noteq> [] \<longrightarrow> targetGroup lib newName (Some g) p = (Inr g, p))"
proof -
  have loc: "locateGroup (PBXFileReference p) groups =
     Inr (map_option fst (find (\<lambda>(groupKey, e).
        \<not> isCommentKey groupKey \<and>
        (case e of
           Comment _ \<Rightarrow> False
         | Obj g \<Rightarrow> (case grp_children g of None \<Rightarrow> False | Some cs \<Rightarrow> hasSourceFiles refs cs))) groups))"
    unfolding assms(1) by (rule locateGroup_find)
  have tg: "targetGroup lib newName None p = pbxCreateGroup lib newName p \<and>
         (g \<noteq> [] \<longrightarrow> targetGroup lib newName (Some g) p = (Inr g, p))"
    by (simp add: targetGroup_def)
  show ?thesis
    unfolding Let_def using loc tg by (simp add: addOp_def Let_def assms(2))
qed

theorem group_locator_swift_objc_witness:
  "PBXFileReference cppBeforeSwift = Some cppBeforeSwiftRefs \<and>
   PBXGroup cppBeforeSwift = Some cppBeforeSwiftGroups \<and>
   classify (extOf ''New.swift'') = Source \<and>
   locateGroup (PBXFileReference cppBeforeSwift) cppBeforeSwiftGroups = Inr (Some ''G2'') \<and>
   addOp acceptingLib cppBeforeSwift ''New.swift'' =
     added (AddedSource ''New.swift'') (addSourceFile acceptingLib ''New.swift'' ''G2'' cppBeforeSwift)"
proof -
  have h1: "PBXFileReference cppBeforeSwift = Some cppBeforeSwiftRefs"
    by (simp add: cppBeforeSwift_def)
  have h2: "PBXGroup cppBeforeSwift = Some cppBeforeSwiftGroups"
    by (simp add: cppBeforeSwift_def)
  have h3: "classify (extOf ''New.swift'') = Source"
    by code_simp
  have e1: "map_option fst (find (\<lambda>(groupKey, e).
            \<not> isCommentKey groupKey \<and>
            (case e of
               Comment _ \<Rightarrow> False
             | Obj g \<Rightarrow> (case grp_children g of None \<Rightarrow> False
                          | Some cs \<Rightarrow> hasSourceFiles cppBeforeSwiftRefs cs)))
            cppBeforeSwiftGroups) = Some ''G2''"
    by code_simp
  have e2: "targetGroup acceptingLib ''Sources'' (Some ''G2'') cppBeforeSwift = (Inr ''G2'', cppBeforeSwift)"
    by (simp add: targetGroup_def)
  show ?thesis
    using group_locator_swift_objc[OF h1 h2, of "''New.swift''" acceptingLib] h1 h2 h3
    unfolding e1 Let_def by (simp add: e2)
qed

subsection \<open>Replies of the entry point\<close>

lemma sync_not_other: "''sync_xcode_project'' \<notin> set otherToolNames"
  by (simp add: otherToolNames_def)

lemma handleToolCall_returns:
  "\<exists>r. handleToolCall env lib otherTools name (Some args) = Returned r"
  by (simp add: handleToolCall_def split: sum.splits)

lemma handleToolCall_sync:
  "handleToolCall env lib otherTools ''sync_xcode_project'' (Some args) =
     Returned (case reply (sync_xcode_project env lib args) of
                 Inl e \<Rightarrow> ErrorReply (errorMessage e)
               | Inr r \<Rightarrow> SyncReply r)"
  using sync_not_other by (simp add: handleToolCall_def toolSwitch_def split: sum.splits)

lemma handleToolCall_other:
  "name \<in> set otherToolNames \<Longrightarrow>
   handleToolCall env lib otherTools name (Some args) =
     Returned (case otherTools name args of
                 Inl e \<Rightarrow> ErrorReply (errorMessage e)
               | Inr text \<Rightarrow> OtherReply text)"
  by (simp add: handleToolCall_def toolSwitch_def split: sum.splits)

lemma handleToolCall_unknown:
  "name \<notin> set otherToolNames \<Longrightarrow> name \<noteq> ''sync_xcode_project'' \<Longrightarrow>
   handleToolCall env lib otherTools name (Some args) =
     Returned (ErrorReply (''Unknown tool: '' @ name))"
  by (simp add: handleToolCall_def toolSwitch_def errorMessage_def)

lemma builtinRemove_total: "\<exists>removed p1. builtinRemove lib np p = (removed, p1)"
  by (cases "builtinRemove lib np p") simp

lemma removeOp_never_raises:
  assumes "PBXFileReference p = Some fileRefs" and "PBXBuildFile p = Some buildFiles"
  shows "\<exists>res. fst (removeOp lib p fp) = Inr res"
  using assms
  by (cases "builtinRemove lib (normalizePath fp) p")
     (auto simp: removeOp_def Let_def split: option.splits bool.splits)

lemma removeOp_found:
  assumes "PBXFileReference p = Some fileRefs" and "PBXBuildFile p = Some buildFiles"
    and "findFileRef fileRefs (normalizePath fp) = Some fileRef" and "fileRef \<noteq> []"
  shows "fst (removeOp lib p fp) = Inr (RemovedFile (normalizePath fp))"
  using assms
  by (cases "builtinRemove lib (normalizePath fp) p")
     (auto simp: removeOp_def Let_def split: option.splits bool.splits)

lemma syncParsed_remove_reply:
  assumes "fst (removeOp lib p fp) = Inr res"
  shows "reply (syncParsed env lib iosPath pbxprojPath p ''remove'' fp) =
           (case writeSync lib (snd (removeOp lib p fp)) of
              Inl e \<Rightarrow> Inr (SyncFailed (errorMessage e))
            | Inr text \<Rightarrow>
                (case writeFileSync env pbxprojPath text of
                   Some e \<Rightarrow> Inr (SyncFailed (errorMessage e))
                 | None \<Rightarrow> Inr (ProjectUpdated res)))"
  using assms
  by (cases "removeOp lib p fp") (simp add: syncParsed_def persist_def split: sum.splits option.splits)

text \<open>
  C7 (as stated). No invocation of the entry point raises, and no error is swallowed.
  One invocation does raise: a call without arguments, as for \<open>get_upgrade_workflow\<close>
  which takes none, raises \<open>Missing arguments\<close> before the \<open>try\<close> is entered. And an
  error is swallowed: the exception of the package's removal is caught to run the manual
  removal, and the reply is that of a removal.
\<close>

theorem missing_arguments_counterexample:
  "handleToolCall oneProjectEnv throwingLib noOtherTools ''get_upgrade_workflow'' None =
     Thrown (Error ''Missing arguments'') \<and>
   fst (removeSourceFile throwingLib ''App.swift'' twoTargets) = Some (Error ''unsupported'') \<and>
   fst (removeOp throwingLib twoTargets ''App.swift'') = Inr (RemovedFile ''App.swift'')"
  by code_simp

text \<open>
  C7 (amended). An invocation with arguments never raises: it returns the reply of the
  tool it names, and every exception raised inside the \<open>switch\<close>, by
  \<open>sync_xcode_project\<close>, by another tool or for an unknown tool name, is returned as the
  reply \<open>Error: message\<close>. An invocation without arguments raises \<open>Missing arguments\<close>.
  The exceptions of the package's removal methods are caught inside remove and are not
  reported: on a project with its file-reference and build-file sections remove never
  raises, and whenever it matches a file reference its result is \<open>Removed file\<close> and the
  reply depends on the writing alone, whatever those methods do.
\<close>

theorem handleToolCall_replies:
  "(\<exists>r. handleToolCall env lib otherTools name (Some args) = Returned r) \<and>
   handleToolCall env lib otherTools ''sync_xcode_project'' (Some args) =
     Returned (case reply (sync_xcode_project env lib args) of
                 Inl e \<Rightarrow> ErrorReply (errorMessage e)
               | Inr r \<Rightarrow> SyncReply r) \<and>
   (name \<in> set otherToolNames \<longrightarrow>
      handleToolCall env lib otherTools name (Some args) =
        Returned (case otherTools name args of
                    Inl e \<Rightarrow> ErrorReply (errorMessage e)
                  | Inr text \<Rightarrow> OtherReply text)) \<and>
   (name \<notin> set otherToolNames \<and> name \<noteq> ''sync_xcode_project'' \<longrightarrow>
      handleToolCall env lib otherTools name (Some args) =
        Returned (ErrorReply (''Unknown tool: '' @ name))) \<and>
   handleToolCall env lib otherTools name None = Thrown (Error ''Missing arguments'') \<and>
   (PBXFileReference p = Some fileRefs \<and> PBXBuildFile p = Some buildFiles \<longrightarrow>
      (\<exists>res. fst (removeOp lib p fp) = Inr res) \<and>
      (\<forall>fileRef. findFileRef fileRefs (normalizePath fp) = Some fileRef \<and> fileRef \<noteq> [] \<longrightarrow>
         fst (removeOp lib p fp) = Inr (RemovedFile (normalizePath fp)) \<and>
         reply (syncParsed env lib iosPath pbxprojPath p ''remove'' fp) =
           (case writeSync lib (snd (removeOp lib p fp)) of
              Inl e \<Rightarrow> Inr (SyncFailed (errorMessage e))
            | Inr text \<Rightarrow>
                (case writeFileSync env pbxprojPath text of
                   Some e \<Rightarrow> Inr (SyncFailed (errorMessage e))
                 | None \<Rightarrow> Inr (ProjectUpdated (RemovedFile (normalizePath fp)))))))"
proof -
  have none: "handleToolCall env lib otherTools name None = Thrown (Error ''Missing arguments'')"
    by (simp add: handleToolCall_def)
  have rm: "PBXFileReference p = Some fileRefs \<and> PBXBuildFile p = Some buildFiles \<longrightarrow>
      (\<exists>res. fst (removeOp lib p fp) = Inr res) \<and>
      (\<forall>fileRef. findFileRef fileRefs (normalizePath fp) = Some fileRef \<and> fileRef \<noteq> [] \<longrightarrow>
         fst (removeOp lib p fp) = Inr (RemovedFile (normalizePath fp)) \<and>
         reply (syncParsed env lib iosPath pbxprojPath p ''remove'' fp) =
           (case writeSync lib (snd (removeOp lib p fp)) of
              Inl e \<Rightarrow> Inr (SyncFailed (errorMessage e))
            | Inr text \<Rightarrow>
                (case writeFileSync env pbxprojPath text of
                   Some e \<Rightarrow> Inr (SyncFailed (errorMessage e))
                 | None \<Rightarrow> Inr (ProjectUpdated (RemovedFile (normalizePath fp))))))"
    using removeOp_never_raises removeOp_found syncParsed_remove_reply by metis
  show ?thesis
    using handleToolCall_returns[of env lib otherTools name args]
      handleToolCall_sync[of env lib otherTools args]
      handleToolCall_other[of name env lib otherTools args]
      handleToolCall_unknown[of name env lib otherTools args] none rm
    by blast
qed

theorem handleToolCall_replies_witness:
  "''get_current_rn_version'' \<in> set otherToolNames \<and>
   handleToolCall oneProjectEnv throwingLib failingOtherTools ''get_current_rn_version''
     (Some \<lparr>projectPath = ''/app'', operation = ''remove'', filePath = ''ios/App.swift''\<rparr>) =
     Returned (ErrorReply ''Unexpected token in JSON'') \<and>
   PBXFileReference twoTargets = Some twoTargetsFileRefs \<and>
   PBXBuildFile twoTargets = Some twoTargetsBuildFiles \<and>
   findFileRef twoTargetsFileRefs (normalizePath ''ios/App.swift'') = Some ''F1'' \<and> ''F1'' \<noteq> [] \<and>
   fst (removeSourceFile throwingLib ''App.swift'' twoTargets) = Some (Error ''unsupported'') \<and>
   fst (removeOp throwingLib twoTargets ''ios/App.swift'') = Inr (RemovedFile ''App.swift'') \<and>
   handleToolCall oneProjectEnv throwingLib failingOtherTools ''sync_xcode_project''
     (Some \<lparr>projectPath = ''/app'', operation = ''remove'', filePath = ''ios/App.swift''\<rparr>) =
     Returned (SyncReply (ProjectUpdated (RemovedFile ''App.swift'')))"
proof -
  let ?a = "\<lparr>projectPath = ''/app'', operation = ''remove'', filePath = ''ios/App.swift''\<rparr>"
  note t = handleToolCall_replies[of oneProjectEnv throwingLib failingOtherTools
      "''get_current_rn_version''" ?a twoTargets twoTargetsFileRefs twoTargetsBuildFiles
      "''ios/App.swift''" "''/app/ios''" "''/app/ios/App.xcodeproj/project.pbxproj''"]
  have h1: "''get_current_rn_version'' \<in> set otherToolNames"
    by (simp add: otherToolNames_def)
  have h2: "PBXFileReference twoTargets = Some twoTargetsFileRefs"
    by (simp add: twoTargets_def)
  have h3: "PBXBuildFile twoTargets = Some twoTargetsBuildFiles"
    by (simp add: twoTargets_def)
  have h4: "findFileRef twoTargetsFileRefs (normalizePath ''ios/App.swift'') = Some ''F1''"
    by code_simp
  have h5: "''F1'' \<noteq> []"
    by simp
  have e1: "normalizePath ''ios/App.swift'' = ''App.swift''"
    by code_simp
  have e3: "failingOtherTools ''get_current_rn_version'' ?a = Inl (Error ''Unexpected token in JSON'')"
    by (simp add: failingOtherTools_def)
  have e4: "fst (removeSourceFile throwingLib ''App.swift'' twoTargets) = Some (Error ''unsupported'')"
    by (simp add: throwingLib_def)
  have e5: "reply (sync_xcode_project oneProjectEnv throwingLib ?a) =
              Inr (ProjectUpdated (RemovedFile ''App.swift''))"
    by code_simp
  have c1: "handleToolCall oneProjectEnv throwingLib failingOtherTools ''get_current_rn_version'' (Some ?a) =
     Returned (ErrorReply ''Unexpected token in JSON'')"
    using t h1 by (simp add: e3 errorMessage_def)
  have c2: "fst (removeOp throwingLib twoTargets ''ios/App.swift'') = Inr (RemovedFile ''App.swift'')"
    using t h2 h3 h4 h5 unfolding e1 by blast
  have c3: "handleToolCall oneProjectEnv throwingLib failingOtherTools ''sync_xcode_project'' (Some ?a) =
     Returned (SyncReply (ProjectUpdated (RemovedFile ''App.swift'')))"
    using t by (simp add: e5)
  show ?thesis
    using h1 h2 h3 h4 h5 e4 c1 c2 c3 by blast
qed

subsection \<open>Operations that return before any change\<close>

lemma syncParsed_unknown:
  "op \<noteq> ''add'' \<Longrightarrow> op \<noteq> ''remove'' \<Longrightarrow>
   syncParsed env lib iosPath pbxprojPath project op fp =
     \<lparr>reply = Inr (UnknownOperation op), graph = Some project, wrote = None\<rparr>"
  by (simp add: syncParsed_def)

lemma syncParsed_add_missing:
  "\<not> existsSync env (join env [iosPath, fp]) \<Longrightarrow>
   syncParsed env lib iosPath pbxprojPath project ''add'' fp =
     \<lparr>reply = Inr (FileDoesNotExist (join env [iosPath, fp])), graph = Some project, wrote = None\<rparr>"
  by (simp add: syncParsed_def)

text \<open>
  C9. For an operation that is neither \<open>add\<close> nor \<open>remove\<close> the tool replies with an
  error and writes nothing; once the project is parsed the reply is \<open>Unknown operation\<close>
  and the project in memory is the one the parser returned.
\<close>

theorem unknown_operation_reported:
  assumes "operation args \<noteq> ''add''" and "operation args \<noteq> ''remove''"
  shows "wrote (sync_xcode_project env lib args) = None \<and>
         isErrorReply (reply (sync_xcode_project env lib args)) \<and>
         (\<forall>g. graph (sync_xcode_project env lib args) = Some g \<longrightarrow>
              reply (sync_xcode_project env lib args) = Inr (UnknownOperation (operation args)) \<and>
              (\<exists>path. parseSync lib path = Inr g)) \<and>
         syncParsed env lib iosPath pbxprojPath project (operation args) fp =
           \<lparr>reply = Inr (UnknownOperation (operation args)), graph = Some project, wrote = None\<rparr>"
  using assms
  by (auto simp: sync_xcode_project_def Let_def syncParsed_unknown isErrorReply_def
      split: sum.splits option.splits)

theorem unknown_operation_reported_witness:
  "operation \<lparr>projectPath = ''/app'', operation = ''rename'', filePath = ''App.swift''\<rparr> \<noteq> ''add'' \<and>
   operation \<lparr>projectPath = ''/app'', operation = ''rename'', filePath = ''App.swift''\<rparr> \<noteq> ''remove'' \<and>
   sync_xcode_project oneProjectEnv throwingLib
     \<lparr>projectPath = ''/app'', operation = ''rename'', filePath = ''App.swift''\<rparr> =
     \<lparr>reply = Inr (UnknownOperation ''rename''), graph = Some twoTargets, wrote = None\<rparr> \<and>
   wrote (sync_xcode_project oneProjectEnv throwingLib
     \<lparr>projectPath = ''/app'', operation = ''rename'', filePath = ''App.swift''\<rparr>) = None"
proof -
  let ?a = "\<lparr>projectPath = ''/app'', operation = ''rename'', filePath = ''App.swift''\<rparr>"
  have h1: "operation ?a \<noteq> ''add''" by simp
  have h2: "operation ?a \<noteq> ''remove''" by simp
  have e: "sync_xcode_project oneProjectEnv throwingLib ?a =
     \<lparr>reply = Inr (UnknownOperation ''rename''), graph = Some twoTargets, wrote = None\<rparr>"
    by code_simp
  show ?thesis
    using unknown_operation_reported[OF h1 h2, of oneProjectEnv throwingLib] h1 h2 e by simp
qed

text \<open>
  C10. An \<open>add\<close> whose file does not exist under the \<open>ios\<close> directory replies with an
  error and writes nothing; once the project is parsed the reply is \<open>File does not exist\<close>,
  no call of the package that adds is made, and the project in memory is the one the
  parser returned.
\<close>

theorem add_missing_file_rejected:
  assumes "operation args = ''add''"
    and "\<not> existsSync env (join env [join env [projectPath args, ''ios''], filePath args])"
  shows "wrote (sync_xcode_project env lib args) = None \<and>
         isErrorReply (reply (sync_xcode_project env lib args)) \<and>
         (\<forall>g. graph (sync_xcode_project env lib args) = Some g \<longrightarrow>
              reply (sync_xcode_project env lib args) =
                Inr (FileDoesNotExist (join env [join env [projectPath args, ''ios''], filePath args])) \<and>
              (\<exists>path. parseSync lib path = Inr g))"
  using assms
  by (auto simp: sync_xcode_project_def Let_def syncParsed_add_missing isErrorReply_def
      split: sum.splits option.splits)

theorem add_missing_file_rejected_witness:
  "operation \<lparr>projectPath = ''/app'', operation = ''add'', filePath = ''App/New.swift''\<rparr> = ''add'' \<and>
   \<not> existsSync oneProjectEnv (join oneProjectEnv [join oneProjectEnv [''/app'', ''ios''], ''App/New.swift'']) \<and>
   sync_xcode_project oneProjectEnv acceptingLib
     \<lparr>projectPath = ''/app'', operation = ''add'', filePath = ''App/New.swift''\<rparr> =
     \<lparr>reply = Inr (FileDoesNotExist ''/app/ios/App/New.swift''), graph = Some twoTargets, wrote = None\<rparr> \<and>
   wrote (sync_xcode_project oneProjectEnv acceptingLib
     \<lparr>projectPath = ''/app'', operation = ''add'', filePath = ''App/New.swift''\<rparr>) = None"
proof -
  let ?a = "\<lparr>projectPath = ''/app'', operation = ''add'', filePath = ''App/New.swift''\<rparr>"
  have h1: "operation ?a = ''add''" by simp
  have h2: "\<not> existsSync oneProjectEnv
      (join oneProjectEnv [join oneProjectEnv [projectPath ?a, ''ios''], filePath ?a])"
    by code_simp
  have h2': "\<not> existsSync oneProjectEnv
      (join oneProjectEnv [join oneProjectEnv [''/app'', ''ios''], ''App/New.swift''])"
    using h2 by simp
  have e: "sync_xcode_project oneProjectEnv acceptingLib ?a =
     \<lparr>reply = Inr (FileDoesNotExist ''/app/ios/App/New.swift''), graph = Some twoTargets, wrote = None\<rparr>"
    by code_simp
  show ?thesis
    using add_missing_file_rejected[OF h1 h2, of acceptingLib] h1 h2' e by simp
qed

end
